theory Spec2Isabelle
  imports Complex_Main "HOL-Library.Word"
begin

unbundle bit_operations_syntax

section \<open>The external function \<open>putchard\<close> of \<open>libExt.c\<close>\<close>

text \<open>
  The whole program is
  \<^verbatim>\<open>
  extern double putchard(double X) {
      char a = (char)X;
      putchar(a);
      fflush(stdout);
      return 0;
  }
  \<close>
  The embedding has three parts: the value of a \<open>double\<close> and its conversion to
  \<open>char\<close>, the standard output stream with the two library calls, and the function itself.
\<close>

subsection \<open>Doubles and the conversion to \<open>char\<close>\<close>

text \<open>
  A \<open>double\<close> is an IEC 60559 binary64 datum: one sign bit, eleven bits of biased exponent,
  fifty-two bits of fraction. The conversion reads nothing else of it, so the 64 bits are the
  model. A \<open>char\<close> object is eight bits; an \<open>int\<close> is thirty-two.
\<close>

type_synonym double = "64 word"
type_synonym c_char = "8 word"
type_synonym c_int = "32 word"

definition sign_bit :: "double \<Rightarrow> bool" where
  "sign_bit X = bit X 63"

definition biased_exponent :: "double \<Rightarrow> nat" where
  "biased_exponent X = unat (take_bit 11 (drop_bit 52 X))"

definition fraction :: "double \<Rightarrow> nat" where
  "fraction X = unat (take_bit 52 X)"

text \<open>Exponent field 2047 holds the infinities (fraction 0) and the NaNs.\<close>

definition is_finite :: "double \<Rightarrow> bool" where
  "is_finite X = (biased_exponent X \<noteq> 2047)"

text \<open>
  A finite double is \<open>\<plusminus> significand * 2 ^ exponent\<close> with an integer significand:
  the hidden bit is set except in the subnormal range (exponent field 0).
\<close>

definition significand :: "double \<Rightarrow> int" where
  "significand X =
     (if biased_exponent X = 0 then int (fraction X) else 2 ^ 52 + int (fraction X))"

definition exponent :: "double \<Rightarrow> int" where
  "exponent X = (if biased_exponent X = 0 then - 1074 else int (biased_exponent X) - 1075)"

definition valof :: "double \<Rightarrow> real" where
  "valof X =
     (if sign_bit X then - 1 else 1) * real_of_int (significand X) * 2 powr real_of_int (exponent X)"

text \<open>
  The integral part: the fractional part is discarded, that is, the value is truncated
  toward zero (ISO C 6.3.1.4). It is computed on the integers, exactly.
\<close>

definition integral_part :: "double \<Rightarrow> int" where
  "integral_part X =
     (let m = significand X; e = exponent X;
          magnitude = (if 0 \<le> e then m * 2 ^ nat e else m div 2 ^ nat (- e))
      in if sign_bit X then - magnitude else magnitude)"

text \<open>
  What ISO C 6.3.1.4 defines for \<open>(char)X\<close>: the integral part when \<open>X\<close> is finite and
  the integral part can be represented in \<open>char\<close>, and nothing otherwise. Whether \<open>char\<close> is
  signed (range -128..127) or unsigned (range 0..255) is the implementation's choice.
\<close>

definition c_double_to_char :: "bool \<Rightarrow> double \<Rightarrow> c_char option" where
  "c_double_to_char is_signed X =
     (if is_finite X \<and>
         (if is_signed then - 128 \<le> integral_part X \<and> integral_part X \<le> 127
          else 0 \<le> integral_part X \<and> integral_part X \<le> 255)
      then Some (word_of_int (integral_part X))
      else None)"

text \<open>
  What the compiled library does: the build the source documents (\<open>clang -dynamiclib\<close>)
  turns \<open>(char)X\<close> into the processor's truncating conversion of the double to a 32-bit
  integer and keeps the low byte of it. Where the integral part fits in 32 bits, that
  integer is the integral part; where it does not, or \<open>X\<close> is an infinity or a NaN, it is a
  value the processor fixes. The host gives that value, and the signedness of \<open>char\<close>;
  no theorem below assumes anything about either. Wherever ISO C defines the conversion
  the two agree (\<open>double_to_char_agrees\<close> below).
\<close>

record host =
  char_signed :: bool
  indefinite :: "double \<Rightarrow> c_int"

definition double_to_int :: "host \<Rightarrow> double \<Rightarrow> c_int" where
  "double_to_int h X =
     (if is_finite X \<and> - 2147483648 \<le> integral_part X \<and> integral_part X \<le> 2147483647
      then word_of_int (integral_part X)
      else indefinite h X)"

definition double_to_char :: "host \<Rightarrow> double \<Rightarrow> c_char" where
  "double_to_char h X = ucast (double_to_int h X)"

text \<open>The byte that comes out where the 32-bit conversion has no integral part to give.\<close>

definition out_of_range :: "host \<Rightarrow> double \<Rightarrow> c_char" where
  "out_of_range h X = ucast (indefinite h X)"

text \<open>The argument of \<open>putchar\<close> is an \<open>int\<close>: the \<open>char\<close> is promoted, keeping its value.\<close>

definition char_to_int :: "host \<Rightarrow> c_char \<Rightarrow> c_int" where
  "char_to_int h a = (if char_signed h then scast a else ucast a)"

subsection \<open>Standard output\<close>

text \<open>
  The stream, after ISO C 7.21: \<open>putchar\<close> writes its argument, converted to
  \<open>unsigned char\<close>, to \<open>stdout\<close> and returns it, or sets the error indicator and returns
  \<open>EOF\<close> on a write error; \<open>fflush\<close> has the unwritten data delivered to the host
  environment and returns 0, or sets the error indicator and returns \<open>EOF\<close>.

  \<open>requests\<close> is the sequence of calls the program has made on the stream, \<open>pending\<close> the
  characters the stream holds and has not delivered, \<open>delivered\<close> what a reader of the
  stream can see. Whether the next write or flush fails is the platform's affair, and so is
  the error number a failure reports: the two flags and \<open>failure_code\<close> are part of the
  state a call finds, and no call changes them.
\<close>

datatype stdio_call = Putc c_char | Flush

record FILE =
  requests :: "stdio_call list"
  pending :: "c_char list"
  delivered :: "c_char list"
  error_indicator :: bool
  write_fails :: bool
  flush_fails :: bool
  failure_code :: c_int

definition working :: "FILE \<Rightarrow> bool" where
  "working f = (\<not> write_fails f \<and> \<not> flush_fails f)"

text \<open>
  The library works on the process: its standard output, the global \<open>errno\<close> and, as the
  extension of the record, everything else the process has (other streams, other globals).
  A call that fails sets \<open>errno\<close>; a flush that fails throws away the characters it could
  not deliver, as the C library does with its buffer. Both calls return; a platform that
  stops the process on a failed write is outside the model. \<open>fflush\<close> is the call
  \<open>fflush(stdout)\<close>, the only one the source makes.
\<close>

record process =
  stdout :: FILE
  errno :: c_int

definition EOF :: c_int where
  "EOF = - 1"

definition putchar :: "c_int \<Rightarrow> 'a process_scheme \<Rightarrow> c_int \<times> 'a process_scheme" where
  "putchar c p =
     (let f = stdout p;
          b = (ucast c :: c_char);
          f' = f\<lparr>requests := requests f @ [Putc b]\<rparr>
      in if write_fails f
         then (EOF, p\<lparr>stdout := f'\<lparr>error_indicator := True\<rparr>, errno := failure_code f\<rparr>)
         else (ucast b, p\<lparr>stdout := f'\<lparr>pending := pending f @ [b]\<rparr>\<rparr>))"

definition fflush :: "'a process_scheme \<Rightarrow> c_int \<times> 'a process_scheme" where
  "fflush p =
     (let f = stdout p;
          f' = f\<lparr>requests := requests f @ [Flush]\<rparr>
      in if flush_fails f
         then (EOF, p\<lparr>stdout := f'\<lparr>pending := [], error_indicator := True\<rparr>,
                     errno := failure_code f\<rparr>)
         else (0, p\<lparr>stdout := f'\<lparr>delivered := delivered f @ pending f, pending := []\<rparr>\<rparr>))"

subsection \<open>The function\<close>

text \<open>
  \<open>return 0\<close> converts the \<open>int\<close> 0 to \<open>double\<close>: positive zero, all 64 bits clear. The
  results of both library calls are dropped, as in the source.
\<close>

definition putchard :: "host \<Rightarrow> double \<Rightarrow> 'a process_scheme \<Rightarrow> double \<times> 'a process_scheme" where
  "putchard h X p =
     (let a = double_to_char h X;
          (r1, p1) = putchar (char_to_int h a) p;
          (r2, p2) = fflush p1
      in (0, p2))"

text \<open>The calls a step has added to the stream's history.\<close>

definition emitted :: "'a process_scheme \<Rightarrow> 'b process_scheme \<Rightarrow> stdio_call list" where
  "emitted p p' = drop (length (requests (stdout p))) (requests (stdout p'))"

subsection \<open>Concrete hosts, states and inputs\<close>

text \<open>
  The documented build on x86-64: \<open>char\<close> is signed, and the conversion instruction
  (\<open>cvttsd2si\<close>) gives the integer indefinite value, sign bit alone, where the integral
  part does not fit. Then an untouched stream that accepts every call, a process that has
  only it, and the same process with standard output on a device that takes no more data
  (error number 28, no space left on device).
\<close>

definition x86_64 :: host where
  "x86_64 = \<lparr>char_signed = True, indefinite = (\<lambda>X. 0x80000000)\<rparr>"

definition fresh :: FILE where
  "fresh = \<lparr>requests = [], pending = [], delivered = [], error_indicator = False,
            write_fails = False, flush_fails = False, failure_code = 0\<rparr>"

definition start :: process where
  "start = \<lparr>stdout = fresh, errno = 0\<rparr>"

definition unflushable :: process where
  "unflushable = \<lparr>stdout = fresh\<lparr>flush_fails := True, failure_code := 28\<rparr>, errno = 0\<rparr>"

text \<open>The doubles the properties are tried on, as bit patterns.\<close>

abbreviation d_65_5 :: double where "d_65_5 \<equiv> 0x4050600000000000"
abbreviation d_120 :: double where "d_120 \<equiv> 0x405E000000000000"
abbreviation d_200 :: double where "d_200 \<equiv> 0x4069000000000000"
abbreviation d_256 :: double where "d_256 \<equiv> 0x4070000000000000"
abbreviation d_minus_1 :: double where "d_minus_1 \<equiv> 0xBFF0000000000000"
abbreviation d_nan :: double where "d_nan \<equiv> 0x7FF8000000000000"

section \<open>Properties\<close>

subsection \<open>The integral part is the value truncated toward zero\<close>

lemmas double_defs =
  integral_part_def significand_def exponent_def biased_exponent_def fraction_def
  sign_bit_def is_finite_def

lemma significand_nonneg: "0 \<le> significand X"
  by (simp add: significand_def)

lemma floor_scaled:
  assumes "0 \<le> m"
  shows "\<lfloor>real_of_int m * 2 powr real_of_int e\<rfloor> =
           (if 0 \<le> e then m * 2 ^ nat e else m div 2 ^ nat (- e))"
proof (cases "0 \<le> e")
  case True
  then have "2 powr real_of_int e = real_of_int (2 ^ nat e)"
    by (simp add: powr_real_of_int)
  then have "real_of_int m * 2 powr real_of_int e = real_of_int (m * 2 ^ nat e)"
    by simp
  then have "\<lfloor>real_of_int m * 2 powr real_of_int e\<rfloor> = m * 2 ^ nat e"
    by (simp only: floor_of_int)
  with True show ?thesis by simp
next
  case False
  then have "2 powr real_of_int e = inverse (real_of_int (2 ^ nat (- e)))"
    by (simp add: powr_real_of_int)
  then have "real_of_int m * 2 powr real_of_int e = real_of_int m / real_of_int (2 ^ nat (- e))"
    by (simp add: divide_inverse)
  then have "\<lfloor>real_of_int m * 2 powr real_of_int e\<rfloor> = m div 2 ^ nat (- e)"
    by (simp only: floor_divide_of_int_eq)
  with False show ?thesis by simp
qed

lemma integral_part_truncates:
  "integral_part X = (if 0 \<le> valof X then \<lfloor>valof X\<rfloor> else \<lceil>valof X\<rceil>)"
proof -
  define r where "r = real_of_int (significand X) * 2 powr real_of_int (exponent X)"
  have r0: "0 \<le> r"
    by (simp add: r_def significand_nonneg)
  have fl: "\<lfloor>r\<rfloor> = (if 0 \<le> exponent X then significand X * 2 ^ nat (exponent X)
                  else significand X div 2 ^ nat (- exponent X))"
    unfolding r_def by (rule floor_scaled [OF significand_nonneg])
  show ?thesis
  proof (cases "sign_bit X")
    case False
    then have "valof X = r" by (simp add: valof_def r_def)
    with False r0 fl show ?thesis by (simp add: integral_part_def Let_def)
  next
    case True
    then have v: "valof X = - r" by (simp add: valof_def r_def)
    have "integral_part X = - \<lfloor>r\<rfloor>"
      using True fl by (simp add: integral_part_def Let_def)
    also have "- \<lfloor>r\<rfloor> = (if 0 \<le> - r then \<lfloor>- r\<rfloor> else \<lceil>- r\<rceil>)"
    proof (cases "r = 0")
      case True then show ?thesis by simp
    next
      case False
      with r0 have "0 < r" by simp
      then show ?thesis by (simp add: ceiling_minus)
    qed
    finally show ?thesis unfolding v .
  qed
qed

lemma valof_examples:
  "valof d_65_5 = 131 / 2" "valof d_120 = 120" "valof d_200 = 200" "valof d_256 = 256"
  "valof d_minus_1 = - 1"
  by (simp_all add: valof_def double_defs powr_minus powr_realpow)

lemma integral_part_examples:
  "integral_part d_65_5 = 65" "integral_part d_120 = 120" "integral_part d_200 = 200"
  "integral_part d_256 = 256" "integral_part d_minus_1 = - 1"
  by (simp_all add: double_defs Let_def)

lemma is_finite_examples:
  "is_finite d_65_5" "is_finite d_120" "is_finite d_200" "is_finite d_256"
  "is_finite d_minus_1" "\<not> is_finite d_nan"
  by (simp_all add: double_defs)

subsection \<open>The compiled conversion\<close>

lemma ucast_word_of_int: "(ucast (word_of_int i :: c_int) :: c_char) = word_of_int i"
  by (rule bit_word_eqI) (auto simp add: bit_simps)

lemma double_to_char_fits:
  assumes "is_finite X" and "- 2147483648 \<le> integral_part X"
    and "integral_part X \<le> 2147483647"
  shows "double_to_char h X = word_of_int (integral_part X)"
  using assms by (simp add: double_to_char_def double_to_int_def ucast_word_of_int)

lemma double_to_char_not_finite:
  "\<not> is_finite X \<Longrightarrow> double_to_char h X = out_of_range h X"
  by (simp add: double_to_char_def double_to_int_def out_of_range_def)

text \<open>Where ISO C defines the conversion, the compiled one gives that \<open>char\<close>.\<close>

lemma double_to_char_agrees:
  assumes "c_double_to_char is_signed X = Some a"
  shows "double_to_char h X = a"
proof -
  from assms have fin: "is_finite X" and a: "a = word_of_int (integral_part X)"
    and "- 128 \<le> integral_part X" and "integral_part X \<le> 255"
    by (auto simp add: c_double_to_char_def split: if_splits)
  then have "- 2147483648 \<le> integral_part X" and "integral_part X \<le> 2147483647"
    by simp_all
  with fin a show ?thesis
    by (simp add: double_to_char_fits)
qed

lemma double_to_char_examples:
  "double_to_char h d_65_5 = 65" "double_to_char h d_120 = 120" "double_to_char h d_200 = 200"
  "double_to_char h d_256 = 0" "double_to_char h d_minus_1 = 255"
  by (simp_all add: double_to_char_fits integral_part_examples is_finite_examples)

subsection \<open>One call\<close>

lemma ucast_char_to_int: "(ucast (char_to_int h a) :: c_char) = a"
  unfolding char_to_int_def by (rule bit_word_eqI) (auto simp add: bit_simps)

lemma putchard_return: "fst (putchard h X p) = 0"
  by (simp add: putchard_def Let_def split: prod.split)

lemma putchard_requests:
  "requests (stdout (snd (putchard h X p))) =
     requests (stdout p) @ [Putc (double_to_char h X), Flush]"
  by (simp add: putchard_def putchar_def fflush_def Let_def ucast_char_to_int)


lemma putchard_emitted:
  "emitted p (snd (putchard h X p)) = [Putc (double_to_char h X), Flush]"
  by (simp add: emitted_def putchard_requests)

lemma putchard_flags:
  "write_fails (stdout (snd (putchard h X p))) = write_fails (stdout p)"
  "flush_fails (stdout (snd (putchard h X p))) = flush_fails (stdout p)"
  "failure_code (stdout (snd (putchard h X p))) = failure_code (stdout p)"
  by (simp_all add: putchard_def putchar_def fflush_def Let_def)

lemma putchard_pending: "pending (stdout (snd (putchard h X p))) = []"
  by (simp add: putchard_def putchar_def fflush_def Let_def)

lemma putchard_delivered:
  "delivered (stdout (snd (putchard h X p))) =
     (if flush_fails (stdout p) then delivered (stdout p)
      else delivered (stdout p) @ pending (stdout p) @
           (if write_fails (stdout p) then [] else [double_to_char h X]))"
  by (simp add: putchard_def putchar_def fflush_def Let_def ucast_char_to_int)

lemma putchard_errno:
  "errno (snd (putchard h X p)) =
     (if write_fails (stdout p) \<or> flush_fails (stdout p) then failure_code (stdout p)
      else errno p)"
  by (simp add: putchard_def putchar_def fflush_def Let_def)

lemma putchard_error_indicator:
  "error_indicator (stdout (snd (putchard h X p))) =
     (write_fails (stdout p) \<or> flush_fails (stdout p) \<or> error_indicator (stdout p))"
  by (auto simp add: putchard_def putchar_def fflush_def Let_def)


lemma putchard_working:
  assumes "working (stdout p)"
  shows "delivered (stdout (snd (putchard h X p))) =
           delivered (stdout p) @ pending (stdout p) @ [double_to_char h X]"
    and "pending (stdout (snd (putchard h X p))) = []"
    and "working (stdout (snd (putchard h X p)))"
    and "errno (snd (putchard h X p)) = errno p"
  using assms
  by (simp_all add: working_def putchard_delivered putchard_pending putchard_flags putchard_errno)

section \<open>The claims\<close>

subsection \<open>What is written, and what is returned\<close>

text \<open>
  \<^bold>\<open>C1\<close>. For every finite double whose integral part lies in 0..255, on every host, a
  call makes exactly one write on standard output, of the byte equal to that integral
  part, followed by the flush, and returns 0.0; on a stream that accepts both calls that
  byte is delivered, after whatever was pending. Where \<open>char\<close> is signed and the integral
  part is 128 or more, \<open>a\<close> holds the low byte of the converted integer, a negative
  \<open>char\<close>, and \<open>putchar\<close> writes it as the \<open>unsigned char\<close> it is: the integral part.
\<close>

theorem putchard_emits_char_code:
  assumes "is_finite X" and "0 \<le> integral_part X" and "integral_part X \<le> 255"
  shows "emitted p (snd (putchard h X p)) = [Putc (word_of_int (integral_part X)), Flush]
       \<and> uint (word_of_int (integral_part X) :: c_char) = integral_part X
       \<and> fst (putchard h X p) = 0
       \<and> (working (stdout p) \<longrightarrow>
            delivered (stdout (snd (putchard h X p))) =
              delivered (stdout p) @ pending (stdout p) @ [word_of_int (integral_part X)])"
proof -
  from assms have "- 2147483648 \<le> integral_part X" and "integral_part X \<le> 2147483647"
    by simp_all
  with assms(1) have conv: "double_to_char h X = word_of_int (integral_part X)"
    by (rule double_to_char_fits)
  from assms(2,3) have "uint (word_of_int (integral_part X) :: c_char) = integral_part X"
    by (simp add: uint_word_of_int_eq take_bit_int_eq_self)
  then show ?thesis
    using conv by (simp add: putchard_emitted putchard_return putchard_working(1))
qed

theorem putchard_emits_char_code_witness:
  "is_finite d_200 \<and> 0 \<le> integral_part d_200 \<and> integral_part d_200 \<le> 255
   \<and> char_signed x86_64
   \<and> working (stdout start)
   \<and> emitted start (snd (putchard x86_64 d_200 start)) = [Putc 200, Flush]
   \<and> fst (putchard x86_64 d_200 start) = 0
   \<and> delivered (stdout (snd (putchard x86_64 d_200 start))) = [200]"
  using putchard_emits_char_code [where X = d_200 and h = x86_64 and p = start]
  by (simp add: integral_part_examples is_finite_examples x86_64_def start_def fresh_def
      working_def)

text \<open>
  \<^bold>\<open>C2\<close>. For every input, every host and every state of the process, the call returns
  0.0 (all bits clear); in particular whatever the two flags say about the write and the
  flush failing.
\<close>

theorem putchard_returns_zero:
  "fst (putchard h X p) = 0
   \<and> fst (putchard h X (p\<lparr>stdout := (stdout p)\<lparr>write_fails := w, flush_fails := fl\<rparr>\<rparr>)) = 0"
  by (simp add: putchard_def Let_def split: prod.split)

text \<open>
  \<^bold>\<open>C3\<close>. The byte is the integral part, the value truncated toward zero and not
  rounded: the double of value 65.5 gives the byte of the character \<open>A\<close> (65, where
  rounding would give 66), the double of value 120 that of \<open>x\<close>, on every host.
\<close>

theorem putchard_truncates:
  "integral_part X = (if 0 \<le> valof X then \<lfloor>valof X\<rfloor> else \<lceil>valof X\<rceil>)
   \<and> valof d_65_5 = 131 / 2
   \<and> emitted p (snd (putchard h d_65_5 p)) = [Putc (of_char CHR ''A''), Flush]
   \<and> valof d_120 = 120
   \<and> emitted p (snd (putchard h d_120 p)) = [Putc (of_char CHR ''x''), Flush]"
  using integral_part_truncates [of X]
  by (simp add: putchard_emitted valof_examples double_to_char_examples)

subsection \<open>Values outside the range of \<open>char\<close>\<close>

text \<open>
  \<^bold>\<open>C4\<close>. The byte written is always the low byte of the 32-bit conversion. So for
  every finite double whose integral part fits in 32 bits, inside the range of \<open>char\<close> or
  not, it is the low 8 bits of the integral part, that is, the integral part modulo 256:
  on every host -1.0 gives 255 and 256.0 gives 0.
\<close>

theorem putchard_low_bits:
  "double_to_char h X = ucast (double_to_int h X)
   \<and> (is_finite X \<and> - 2147483648 \<le> integral_part X \<and> integral_part X \<le> 2147483647 \<longrightarrow>
        emitted p (snd (putchard h X p)) = [Putc (word_of_int (integral_part X)), Flush]
        \<and> uint (double_to_char h X) = take_bit 8 (integral_part X)
        \<and> uint (double_to_char h X) = integral_part X mod 256)
   \<and> valof d_minus_1 = - 1
   \<and> emitted p (snd (putchard h d_minus_1 p)) = [Putc 255, Flush]
   \<and> valof d_256 = 256
   \<and> emitted p (snd (putchard h d_256 p)) = [Putc 0, Flush]"
proof -
  have "emitted p (snd (putchard h X p)) = [Putc (word_of_int (integral_part X)), Flush]
        \<and> uint (double_to_char h X) = take_bit 8 (integral_part X)
        \<and> uint (double_to_char h X) = integral_part X mod 256"
    if "is_finite X" and "- 2147483648 \<le> integral_part X" and "integral_part X \<le> 2147483647"
    using double_to_char_fits [OF that, of h]
    by (simp add: putchard_emitted uint_word_of_int_eq take_bit_eq_mod)
  moreover have "double_to_char h X = ucast (double_to_int h X)"
    by (simp only: double_to_char_def)
  moreover have "emitted p (snd (putchard h d_minus_1 p)) = [Putc 255, Flush]"
    and "emitted p (snd (putchard h d_256 p)) = [Putc 0, Flush]"
    by (simp_all add: putchard_emitted double_to_char_examples)
  moreover have "valof d_minus_1 = - 1" and "valof d_256 = 256"
    by (simp_all add: valof_examples)
  ultimately show ?thesis
    by (intro conjI impI) blast+
qed

theorem putchard_low_bits_witness:
  "is_finite d_256 \<and> - 2147483648 \<le> integral_part d_256 \<and> integral_part d_256 \<le> 2147483647
   \<and> integral_part d_256 = 256
   \<and> emitted start (snd (putchard x86_64 d_256 start)) = [Putc 0, Flush]
   \<and> uint (double_to_char x86_64 d_256) = 256 mod 256
   \<and> is_finite d_minus_1 \<and> integral_part d_minus_1 = - 1
   \<and> emitted start (snd (putchard x86_64 d_minus_1 start)) = [Putc 255, Flush]
   \<and> uint (double_to_char x86_64 d_minus_1) = (- 1) mod 256"
  using putchard_low_bits [where h = x86_64 and X = d_256 and p = start, THEN conjunct2]
    putchard_low_bits [where h = x86_64 and X = d_minus_1 and p = start, THEN conjunct2]
  by (simp add: integral_part_examples is_finite_examples double_to_char_examples)

subsection \<open>Effects on the process\<close>

lemma putchard_twice_emitted:
  "emitted p (snd (putchard h X2 (snd (putchard h X1 p)))) =
     [Putc (double_to_char h X1), Flush, Putc (double_to_char h X2), Flush]"
  by (simp add: emitted_def putchard_requests)

lemma putchard_twice_delivered:
  assumes "working (stdout p)"
  shows "delivered (stdout (snd (putchard h X2 (snd (putchard h X1 p))))) =
           delivered (stdout p) @ pending (stdout p) @ [double_to_char h X1, double_to_char h X2]"
proof -
  let ?p1 = "snd (putchard h X1 p)"
  have "working (stdout ?p1)" and "pending (stdout ?p1) = []"
    and "delivered (stdout ?p1) = delivered (stdout p) @ pending (stdout p) @ [double_to_char h X1]"
    using assms by (simp_all add: putchard_working)
  then show ?thesis
    by (simp add: putchard_working(1))
qed




text \<open>
  \<^bold>\<open>C6\<close>. Two calls, one after the other, add to the history of standard output the
  write of the first byte, a flush, the write of the second byte, a flush, in that order
  and nothing else; on a stream that accepts the calls the two bytes are delivered in
  call order, after whatever was pending.
\<close>

theorem putchard_twice_in_order:
  "emitted p (snd (putchard h X2 (snd (putchard h X1 p)))) =
     [Putc (double_to_char h X1), Flush, Putc (double_to_char h X2), Flush]
   \<and> (working (stdout p) \<longrightarrow>
        delivered (stdout (snd (putchard h X2 (snd (putchard h X1 p))))) =
          delivered (stdout p) @ pending (stdout p) @ [double_to_char h X1, double_to_char h X2])"
  by (simp add: putchard_twice_emitted putchard_twice_delivered)

theorem putchard_twice_in_order_witness:
  "working (stdout start)
   \<and> emitted start (snd (putchard x86_64 d_120 (snd (putchard x86_64 d_65_5 start))))
       = [Putc 65, Flush, Putc 120, Flush]
   \<and> delivered (stdout (snd (putchard x86_64 d_120
         (snd (putchard x86_64 d_65_5 start))))) = [65, 120]"
  using putchard_twice_in_order [of start x86_64 d_120 d_65_5]
  by (simp add: start_def fresh_def working_def double_to_char_examples)

text \<open>
  \<^bold>\<open>C7\<close>. On one host, the calls a call adds and the value it returns are the same
  from any two states of any two processes, failing streams included, and the same again
  when the call is repeated: they depend on \<open>X\<close> and on nothing the process retains.
\<close>

theorem putchard_deterministic:
  "fst (putchard h X p) = fst (putchard h X q)
   \<and> emitted p (snd (putchard h X p)) = emitted q (snd (putchard h X q))
   \<and> emitted p (snd (putchard h X p)) = [Putc (double_to_char h X), Flush]
   \<and> emitted (snd (putchard h X p)) (snd (putchard h X (snd (putchard h X p)))) =
       emitted p (snd (putchard h X p))"
  by (simp add: putchard_return putchard_emitted)

text \<open>
  \<^bold>\<open>C8\<close>, as stated, has the byte delivered by the time every call returns. The
  flush is made in every call, but its result is dropped like that of the write: when the
  flush fails the byte is not delivered and the call returns 0.0 all the same.
\<close>

theorem putchard_failed_flush_counterexample:
  "flush_fails (stdout unflushable)
   \<and> emitted unflushable (snd (putchard x86_64 d_120 unflushable)) = [Putc 120, Flush]
   \<and> delivered (stdout (snd (putchard x86_64 d_120 unflushable))) = []
   \<and> pending (stdout (snd (putchard x86_64 d_120 unflushable))) = []
   \<and> error_indicator (stdout (snd (putchard x86_64 d_120 unflushable)))
   \<and> fst (putchard x86_64 d_120 unflushable) = 0"
  by (simp add: putchard_emitted putchard_delivered putchard_pending putchard_return
      putchard_error_indicator double_to_char_examples unflushable_def fresh_def)

text \<open>
  \<^bold>\<open>C8\<close>, as amended. In every call the flush is the last thing done to standard
  output, right after the write; when the write and the flush succeed, nothing is left
  pending when the call returns, however little the buffer held, and the byte is the last
  one delivered.
\<close>

theorem putchard_flushes_before_return:
  "emitted p (snd (putchard h X p)) = [Putc (double_to_char h X), Flush]
   \<and> last (requests (stdout (snd (putchard h X p)))) = Flush
   \<and> (working (stdout p) \<longrightarrow>
        pending (stdout (snd (putchard h X p))) = []
        \<and> delivered (stdout (snd (putchard h X p))) =
            delivered (stdout p) @ pending (stdout p) @ [double_to_char h X]
        \<and> last (delivered (stdout (snd (putchard h X p)))) = double_to_char h X)"
  by (simp add: putchard_emitted putchard_requests putchard_working(1,2))

theorem putchard_flushes_before_return_witness:
  "working (stdout start)
   \<and> emitted start (snd (putchard x86_64 d_120 start)) = [Putc 120, Flush]
   \<and> pending (stdout (snd (putchard x86_64 d_120 start))) = []
   \<and> delivered (stdout (snd (putchard x86_64 d_120 start))) = [120]"
  using putchard_flushes_before_return [where p = start and h = x86_64 and X = d_120]
  by (simp add: start_def fresh_def working_def double_to_char_examples)

subsection \<open>No validation, no error, no loop\<close>

text \<open>
  \<^bold>\<open>C9\<close>. Every double, a NaN as well, goes down the one path: the write of the
  converted byte, the flush, 0.0 returned. When both library calls fail they return \<open>EOF\<close>
  and the stream's error indicator is set, and the call still returns 0.0, as it does when
  they succeed: nothing tells the caller.
\<close>

theorem putchard_no_validation:
  "emitted p (snd (putchard h X p)) = [Putc (double_to_char h X), Flush]
   \<and> fst (putchard h X p) = 0
   \<and> \<not> is_finite d_nan
   \<and> emitted p (snd (putchard h d_nan p)) = [Putc (out_of_range h d_nan), Flush]
   \<and> fst (putchar c (p\<lparr>stdout := f\<lparr>write_fails := True, flush_fails := True\<rparr>\<rparr>)) = EOF
   \<and> fst (fflush (snd (putchar c
        (p\<lparr>stdout := f\<lparr>write_fails := True, flush_fails := True\<rparr>\<rparr>)))) = EOF
   \<and> error_indicator (stdout (snd (putchard h X
        (p\<lparr>stdout := f\<lparr>write_fails := True, flush_fails := True\<rparr>\<rparr>))))
   \<and> fst (putchard h X (p\<lparr>stdout := f\<lparr>write_fails := True, flush_fails := True\<rparr>\<rparr>)) =
       fst (putchard h X (p\<lparr>stdout := f\<lparr>write_fails := False, flush_fails := False\<rparr>\<rparr>))"
proof -
  have "double_to_char h d_nan = out_of_range h d_nan"
    by (simp add: double_to_char_not_finite is_finite_examples)
  then show ?thesis
    by (simp add: putchard_emitted putchard_return putchard_error_indicator is_finite_examples
        putchar_def fflush_def Let_def)
qed

text \<open>
  \<^bold>\<open>C10\<close>. For every double, every host and every state the call has a result, given
  outright by the conversion, one \<open>putchar\<close> and one \<open>fflush\<close>, with nothing repeated:
  two calls on the stream, and 0.0.
\<close>

theorem putchard_total:
  "putchard h X p =
     (0, snd (fflush (snd (putchar (char_to_int h (double_to_char h X)) p))))
   \<and> (\<exists>r p'. putchard h X p = (r, p'))
   \<and> length (requests (stdout (snd (putchard h X p)))) = length (requests (stdout p)) + 2"
proof -
  have eq: "putchard h X p =
     (0, snd (fflush (snd (putchar (char_to_int h (double_to_char h X)) p))))"
    by (simp add: putchard_def Let_def split: prod.split)
  then have ex: "\<exists>r p'. putchard h X p = (r, p')"
    by blast
  have len: "length (requests (stdout (snd (putchard h X p)))) = length (requests (stdout p)) + 2"
    by (simp add: putchard_requests)
  from eq ex len show ?thesis
    by (intro conjI)
qed

end
